theory Spec2Isabelle
  imports Complex_Main
begin

section \<open>Pixel values\<close>

text \<open>
  The elements of the arrays are floating-point numbers. No arithmetic is done on them by
  the functions below: they are copied, overwritten by the constant \<open>1.0\<close> and compared
  with \<open><\<close>. A value is therefore a finite number, one of the two infinities, or NaN,
  and the comparisons are the IEEE ones numpy uses: every comparison with NaN is false.
\<close>

datatype fval = NaN | NegInf | Fin real | PosInf

text \<open>Python's \<open>a < b\<close> on floats.\<close>

fun flt :: "fval \<Rightarrow> fval \<Rightarrow> bool" where
  "flt NaN b = False"
| "flt a NaN = False"
| "flt (Fin a) (Fin b) = (a < b)"
| "flt a NegInf = False"
| "flt NegInf b = True"
| "flt PosInf b = False"
| "flt a PosInf = True"

text \<open>Python's \<open>a <= b\<close> on floats.\<close>

fun fle :: "fval \<Rightarrow> fval \<Rightarrow> bool" where
  "fle NaN b = False"
| "fle a NaN = False"
| "fle (Fin a) (Fin b) = (a \<le> b)"
| "fle NegInf b = True"
| "fle a PosInf = True"
| "fle a b = False"

text \<open>A value of the closed range \<open>[0, 1]\<close>: \<open>0.0 <= v <= 1.0\<close>.\<close>

definition in_unit :: "fval \<Rightarrow> bool" where
  "in_unit v = (fle (Fin 0) v \<and> fle v (Fin 1))"

section \<open>Element types\<close>

text \<open>
  An array has an element type. The masks of step 4 are \<open>float32\<close> arrays
  (\<open>np.array(img, dtype=np.float32) / 255.0\<close>); a Python \<open>float\<close> such as the
  threshold is a double. When numpy combines an array with a Python scalar, the scalar is
  converted to the element type of the array: the threshold is rounded to \<open>float32\<close>
  before it is compared with a \<open>float32\<close> mask, and \<open>1.0\<close> is converted to the
  element type of the array it is stored in.
\<close>

datatype dtype = Bool | Float16 | Float32 | Float64

text \<open>Rounding to the nearest integer, a tie to the even one.\<close>

definition round_half_even :: "real \<Rightarrow> int" where
  "round_half_even y =
     (let f = \<lfloor>y\<rfloor>; d = y - of_int f
      in if d < 1 / 2 then f else if 1 / 2 < d then f + 1 else if even f then f else f + 1)"

text \<open>
  The greatest exponent \<open>e'\<close> with \<open>2 ^ e' \<le> x\<close> among \<open>e, e - 1, \<dots>, e - n + 1\<close>,
  and \<open>e - n\<close> when there is none.
\<close>

fun exponent_search :: "nat \<Rightarrow> int \<Rightarrow> real \<Rightarrow> int" where
  "exponent_search 0 e x = e"
| "exponent_search (Suc n) e x = (if 2 powi e \<le> x then e else exponent_search n (e - 1) x)"

text \<open>
  IEEE 754 rounding of a real number to the binary format with \<open>p\<close> bits of precision
  and normal exponents from \<open>emin\<close> to \<open>emax\<close>: to the nearest representable number, a
  tie to the one with an even significand, with subnormal numbers below \<open>2 ^ emin\<close>
  and an infinity from \<open>2 ^ (emax + 1)\<close> on.
\<close>

definition round_binary :: "nat \<Rightarrow> int \<Rightarrow> int \<Rightarrow> real \<Rightarrow> fval" where
  "round_binary p emin emax x =
     (let e = exponent_search (nat (emax - emin)) emax \<bar>x\<bar>;
          q = 2 powi (e - int p + 1);
          r = of_int (round_half_even (x / q)) * q
      in if 2 powi (emax + 1) \<le> \<bar>r\<bar> then (if 0 < x then PosInf else NegInf) else Fin r)"

text \<open>
  The conversion of a Python \<open>float\<close> to an element type. A double is a \<open>float64\<close>
  already; in a boolean array every value but zero is \<open>True\<close>, which reads as \<open>1\<close>.
\<close>

fun astype :: "dtype \<Rightarrow> fval \<Rightarrow> fval" where
  "astype Float64 v = v"
| "astype Float32 (Fin x) = round_binary 24 (- 126) 127 x"
| "astype Float16 (Fin x) = round_binary 11 (- 14) 15 x"
| "astype Bool (Fin x) = (if x = 0 then Fin 0 else Fin 1)"
| "astype Bool v = Fin 1"
| "astype d v = v"

text \<open>
  The type in which an array is compared with a Python \<open>float\<close>: its own floating-point
  type, and \<open>float64\<close> for a boolean array.
\<close>

fun comparison_dtype :: "dtype \<Rightarrow> dtype" where
  "comparison_dtype Bool = Float64"
| "comparison_dtype d = d"

section \<open>Arrays\<close>

text \<open>
  A numpy array is its shape (a tuple of dimensions), its elements in row-major order
  and its element type. An array numpy can build holds as many elements as the product
  of its dimensions (\<open>wf_ndarray\<close>); an image is the two-dimensional case
  \<open>[height, width]\<close>.
\<close>

record 'a ndarray =
  shape :: "nat list"
  data :: "'a list"
  dtype :: dtype

definition wf_ndarray :: "'a ndarray \<Rightarrow> bool" where
  "wf_ndarray a = (length (data a) = prod_list (shape a))"


text \<open>\<open>a.copy()\<close>: a new array with the same shape, elements and element type.\<close>

definition copy :: "'a ndarray \<Rightarrow> 'a ndarray" where
  "copy a = \<lparr>shape = shape a, data = data a, dtype = dtype a\<rparr>"

text \<open>
  \<open>a < x\<close> for a Python \<open>float\<close> \<open>x\<close>: the boolean array of the elementwise
  comparisons of the elements with \<open>x\<close> converted to the type of the comparison.
\<close>

definition less_scalar :: "fval ndarray \<Rightarrow> fval \<Rightarrow> bool ndarray" where
  "less_scalar a x =
     \<lparr>shape = shape a,
      data = map (\<lambda>v. flt v (astype (comparison_dtype (dtype a)) x)) (data a),
      dtype = Bool\<rparr>"

text \<open>
  \<open>a[m] = v\<close> for a boolean array \<open>m\<close> of the shape of \<open>a\<close> and a Python \<open>float\<close>
  \<open>v\<close>: the elements of \<open>a\<close> at the positions where \<open>m\<close> is true become \<open>v\<close>,
  converted to the element type of \<open>a\<close>; the others stay.
\<close>

definition setitem_mask :: "fval ndarray \<Rightarrow> bool ndarray \<Rightarrow> fval \<Rightarrow> fval ndarray" where
  "setitem_mask a m v =
     (let c = astype (dtype a) v
      in a\<lparr>data := map2 (\<lambda>x b. if b then c else x) (data a) (data m)\<rparr>)"

section \<open>Errors\<close>

text \<open>
  Both modules raise \<open>ValueError\<close>. The constructors keep what the message is built
  from; \<open>shape_mismatch_message\<close> and \<open>dimension_mismatch_message\<close> render the
  text of the exception.
  \<^item> \<open>ShapeMismatch s m\<close>: \<open>create_masked_stipple\<close>, the shapes of the stipple image and
    of the mask;
  \<^item> \<open>DimensionMismatch name s h w\<close>: \<open>create_statistics_meme\<close>, the name of the image
    that failed the check, its shape, and the expected height and width;
  \<^item> \<open>UnpackError n\<close>: unpacking a shape of \<open>n \<noteq> 2\<close> dimensions into
    \<open>img_height, img_width\<close>.
\<close>

datatype error =
    ShapeMismatch "nat list" "nat list"
  | DimensionMismatch string "nat list" nat nat
  | UnpackError nat

section \<open>Step 5: the masked stipple image\<close>

text \<open>
  \<open>create_masked_stipple\<close> on values. The statistics of lines 62 to 78 are only printed:
  they read the arrays and do not enter the result. For an array without elements the
  percentage is a numpy scalar division by zero, which gives \<open>nan\<close> and a warning, so
  the function returns for every pair of arrays of one shape.
\<close>

definition create_masked_stipple ::
    "fval ndarray \<Rightarrow> fval ndarray \<Rightarrow> fval \<Rightarrow> error + fval ndarray" where
  "create_masked_stipple stipple_img mask_img threshold =
     (if shape stipple_img \<noteq> shape mask_img
      then Inl (ShapeMismatch (shape stipple_img) (shape mask_img))
      else
        let masked_stipple = copy stipple_img;
            mask_regions = less_scalar mask_img threshold
        in Inr (setitem_mask masked_stipple mask_regions (Fin 1)))"

text \<open>
  The same function on a store. Arrays are objects: a reference is an index into the
  list of the allocated arrays, and two arguments may be the same reference.
  \<open>copy()\<close> allocates a new array, and the assignment through the boolean index
  updates the array at that reference in place. The store is returned on the error path
  too, as the caller finds it when the exception reaches it.
\<close>

type_synonym addr = nat

type_synonym heap = "fval ndarray list"

definition alloc :: "heap \<Rightarrow> fval ndarray \<Rightarrow> addr \<times> heap" where
  "alloc h a = (length h, h @ [a])"

definition create_masked_stipple_heap ::
    "heap \<Rightarrow> addr \<Rightarrow> addr \<Rightarrow> fval \<Rightarrow> (error + addr) \<times> heap" where
  "create_masked_stipple_heap h stipple_img mask_img threshold =
     (if shape (h ! stipple_img) \<noteq> shape (h ! mask_img)
      then (Inl (ShapeMismatch (shape (h ! stipple_img)) (shape (h ! mask_img))), h)
      else
        let (masked_stipple, h1) = alloc h (copy (h ! stipple_img));
            mask_regions = less_scalar (h1 ! mask_img) threshold;
            h2 = h1[masked_stipple :=
                      setitem_mask (h1 ! masked_stipple) mask_regions (Fin 1)]
        in (Inr masked_stipple, h2))"

section \<open>The text of the exceptions\<close>

text \<open>Decimal digits of a natural number, as \<open>str\<close> prints an \<open>int\<close>.\<close>

fun string_of_nat :: "nat \<Rightarrow> string" where
  "string_of_nat n =
     (if n < 10 then [char_of (48 + n)]
      else string_of_nat (n div 10) @ [char_of (48 + n mod 10)])"

declare string_of_nat.simps [simp del]

fun join :: "string \<Rightarrow> string list \<Rightarrow> string" where
  "join sep [] = []"
| "join sep [x] = x"
| "join sep (x # y # ys) = x @ sep @ join sep (y # ys)"

text \<open>How Python prints a tuple of integers: \<open>()\<close>, \<open>(3,)\<close>, \<open>(10, 11)\<close>.\<close>

definition tuple_repr :: "nat list \<Rightarrow> string" where
  "tuple_repr xs =
     (case xs of
        [x] \<Rightarrow> ''('' @ string_of_nat x @ '',)''
      | _ \<Rightarrow> ''('' @ join '', '' (map string_of_nat xs) @ '')'')"

definition shape_mismatch_message :: "nat list \<Rightarrow> nat list \<Rightarrow> string" where
  "shape_mismatch_message s m =
     ''Input images must have the same shape. '' @
     ''stipple_img shape: '' @ tuple_repr s @ '', '' @
     ''mask_img shape: '' @ tuple_repr m"

definition dimension_mismatch_message :: "string \<Rightarrow> nat list \<Rightarrow> nat \<Rightarrow> nat \<Rightarrow> string" where
  "dimension_mismatch_message name s img_height img_width =
     ''All images must have the same dimensions. '' @
     name @ '' has shape '' @ tuple_repr s @ '', expected ('' @
     string_of_nat img_height @ '', '' @ string_of_nat img_width @ '')''"

section \<open>The four-panel meme: validation of the panels\<close>

text \<open>
  The loop of lines 65 to 70 over the named images: the first image whose shape is not
  \<open>(img_height, img_width)\<close> raises, and no later image is looked at.
\<close>

fun check_images :: "nat \<Rightarrow> nat \<Rightarrow> (string \<times> 'a ndarray) list \<Rightarrow> error option" where
  "check_images img_height img_width [] = None"
| "check_images img_height img_width ((name, img) # images) =
     (if shape img \<noteq> [img_height, img_width]
      then Some (DimensionMismatch name (shape img) img_height img_width)
      else check_images img_height img_width images)"

text \<open>
  \<open>create_statistics_meme\<close> up to the end of its validation (lines 54 to 70). The
  expected shape is unpacked from \<open>original_img.shape\<close>, which raises unless the
  array is two-dimensional. \<open>Inr (img_height, img_width)\<close> is the case where no
  exception was raised and the four panels go on to be drawn and saved by matplotlib;
  the drawing itself is outside this model.
\<close>

definition create_statistics_meme ::
    "'a ndarray \<Rightarrow> 'a ndarray \<Rightarrow> 'a ndarray \<Rightarrow> 'a ndarray \<Rightarrow> error + nat \<times> nat" where
  "create_statistics_meme original_img stipple_img block_letter_img masked_stipple_img =
     (case shape original_img of
        [img_height, img_width] \<Rightarrow>
          (case check_images img_height img_width
                  [(''original_img'', original_img),
                   (''stipple_img'', stipple_img),
                   (''block_letter_img'', block_letter_img),
                   (''masked_stipple_img'', masked_stipple_img)] of
             Some e \<Rightarrow> Inl e
           | None \<Rightarrow> Inr (img_height, img_width))
      | s \<Rightarrow> Inl (UnpackError (length s)))"

text \<open>The name of the image the raised error puts the blame on, when it names one.\<close>

fun blamed :: "error + 'b \<Rightarrow> string option" where
  "blamed (Inl (DimensionMismatch name s h w)) = Some name"
| "blamed r = None"

section \<open>Example images\<close>

text \<open>An all-white image of the given height and width.\<close>

definition white_image :: "nat \<Rightarrow> nat \<Rightarrow> fval ndarray" where
  "white_image h w =
     \<lparr>shape = [h, w], data = replicate (h * w) (Fin 1), dtype = Float64\<rparr>"

text \<open>An all-black image (a mask of zeros) of the given height and width.\<close>

definition black_image :: "nat \<Rightarrow> nat \<Rightarrow> fval ndarray" where
  "black_image h w =
     \<lparr>shape = [h, w], data = replicate (h * w) (Fin 0), dtype = Float64\<rparr>"

definition ex_stipple :: "fval ndarray" where
  "ex_stipple =
     \<lparr>shape = [2, 2], data = [Fin 0, Fin 1, Fin 0, Fin (1 / 4)], dtype = Float64\<rparr>"

definition ex_mask :: "fval ndarray" where
  "ex_mask =
     \<lparr>shape = [2, 2], data = [Fin 0, Fin (1 / 2), Fin 1, Fin (1 / 4)], dtype = Float64\<rparr>"

definition ex_mask2 :: "fval ndarray" where
  "ex_mask2 =
     \<lparr>shape = [2, 2], data = [Fin 1, Fin 0, NaN, Fin (3 / 4)], dtype = Float64\<rparr>"





section \<open>Facts about comparisons, indices and the masked elements\<close>



text \<open>Rounding: integers, the exponent, and the constants \<open>0\<close> and \<open>1\<close>.\<close>

lemma round_half_even_of_int: "round_half_even (of_int n) = n"
  by (simp add: round_half_even_def)

lemma exponent_search_eq:
  assumes "e0 \<le> e" "e - int n \<le> e0" "2 powi e0 \<le> x" "x < 2 powi (e0 + 1)"
  shows "exponent_search n e x = e0"
  using assms
proof (induction n arbitrary: e)
  case 0
  then show ?case by simp
next
  case (Suc n)
  show ?case
  proof (cases "2 powi e \<le> x")
    case True
    have "e = e0"
    proof (rule ccontr)
      assume "e \<noteq> e0"
      with Suc.prems(1) have "e0 + 1 \<le> e" by simp
      then have "(2::real) powi (e0 + 1) \<le> 2 powi e"
        by (intro power_int_increasing) simp_all
      with True Suc.prems(4) show False by simp
    qed
    with True show ?thesis by simp
  next
    case False
    with Suc.prems(3) have "e \<noteq> e0" by auto
    with Suc.prems(1) have le: "e0 \<le> e - 1" by simp
    from Suc.prems(2) have "e - 1 - int n \<le> e0" by simp
    from Suc.IH [OF le this Suc.prems(3,4)] False show ?thesis by simp
  qed
qed

lemma round_binary_zero: "round_binary p emin emax 0 = Fin 0"
proof -
  have "0 < (2::real) powi (emax + 1)" by (rule zero_less_power_int) simp
  then show ?thesis
    by (simp add: round_binary_def Let_def round_half_even_def not_le)
qed

lemma exponent_search_one:
  assumes "emin \<le> 0" "0 \<le> emax"
  shows "exponent_search (nat (emax - emin)) emax 1 = 0"
  using assms by (intro exponent_search_eq) simp_all

lemma astype_zero: "astype d (Fin 0) = Fin 0"
  by (cases d) (simp_all add: round_binary_zero)

lemma float32_one: "round_binary 24 (- 126) 127 1 = Fin 1"
proof -
  have e: "exponent_search (nat (127 - (- 126))) 127 \<bar>1::real\<bar> = 0"
    using exponent_search_one [of "- 126" 127] by simp
  have r: "round_half_even (8388608::real) = 8388608"
    using round_half_even_of_int [of 8388608] by simp
  show ?thesis
    unfolding round_binary_def Let_def e by (simp add: power_int_minus r)
qed

lemma float16_one: "round_binary 11 (- 14) 15 1 = Fin 1"
proof -
  have e: "exponent_search (nat (15 - (- 14))) 15 \<bar>1::real\<bar> = 0"
    using exponent_search_one [of "- 14" 15] by simp
  have r: "round_half_even (1024::real) = 1024"
    using round_half_even_of_int [of 1024] by simp
  show ?thesis
    unfolding round_binary_def Let_def e by (simp add: power_int_minus r)
qed

lemma astype_one: "astype d (Fin 1) = Fin 1"
  by (cases d) (simp_all add: float32_one float16_one)





text \<open>What the function returns once the shapes agree.\<close>

lemma create_masked_stipple_same_shape:
  "shape S = shape M \<Longrightarrow>
   create_masked_stipple S M t =
     Inr \<lparr>shape = shape S,
          data = map2 (\<lambda>x b. if b then Fin 1 else x) (data S)
                   (map (\<lambda>v. flt v (astype (comparison_dtype (dtype M)) t)) (data M)),
          dtype = dtype S\<rparr>"
  by (simp add: create_masked_stipple_def copy_def less_scalar_def setitem_mask_def
      Let_def astype_one)

lemma masked_data_nth:
  assumes "i < length xs" "length ms = length xs"
  shows "map2 (\<lambda>x b. if b then Fin 1 else x) xs (map (\<lambda>v. flt v t) ms) ! i =
         (if flt (ms ! i) t then Fin 1 else xs ! i)"
  using assms by simp

lemma masked_data_idem:
  "map2 (\<lambda>x b. if b then Fin 1 else x)
     (map2 (\<lambda>x b. if b then Fin 1 else x) xs (map (\<lambda>v. flt v t) ms))
     (map (\<lambda>v. flt v t) ms) =
   map2 (\<lambda>x b. if b then Fin 1 else x) xs (map (\<lambda>v. flt v t) ms)"
proof (induction xs arbitrary: ms)
  case Nil
  show ?case by simp
next
  case (Cons x xs)
  show ?case
  proof (cases ms)
    case Nil
    then show ?thesis by simp
  next
    case (Cons m ms')
    with Cons.IH [of ms'] show ?thesis by simp
  qed
qed

lemma masked_data_commute:
  "map2 (\<lambda>x b. if b then Fin 1 else x)
     (map2 (\<lambda>x b. if b then Fin 1 else x) xs (map (\<lambda>v. flt v t) ms))
     (map (\<lambda>v. flt v u) ns) =
   map2 (\<lambda>x b. if b then Fin 1 else x)
     (map2 (\<lambda>x b. if b then Fin 1 else x) xs (map (\<lambda>v. flt v u) ns))
     (map (\<lambda>v. flt v t) ms)"
proof (induction xs arbitrary: ms ns)
  case Nil
  show ?case by simp
next
  case (Cons x xs)
  show ?case
  proof (cases ms)
    case Nil
    then show ?thesis by simp
  next
    case msC: (Cons m ms')
    show ?thesis
    proof (cases ns)
      case Nil
      then show ?thesis by simp
    next
      case (Cons n ns')
      with msC Cons.IH [of ms' ns'] show ?thesis by simp
    qed
  qed
qed

lemma masked_data_none:
  assumes "length ms = length xs" "\<forall>v \<in> set ms. \<not> flt v t"
  shows "map2 (\<lambda>x b. if b then Fin 1 else x) xs (map (\<lambda>v. flt v t) ms) = xs"
  using assms
proof (induction xs arbitrary: ms)
  case Nil
  then show ?case by simp
next
  case (Cons x xs)
  then obtain m ms' where ms: "ms = m # ms'" by (cases ms) auto
  with Cons show ?case by simp
qed

lemma masked_data_all:
  assumes "\<forall>v \<in> set ms. flt v t"
  shows "\<forall>y \<in> set (map2 (\<lambda>x b. if b then Fin 1 else x) xs (map (\<lambda>v. flt v t) ms)). y = Fin 1"
  using assms
proof (induction xs arbitrary: ms)
  case Nil
  then show ?case by simp
next
  case (Cons x xs)
  show ?case
  proof (cases ms)
    case Nil
    then show ?thesis by simp
  next
    case (Cons m ms')
    with Cons.prems Cons.IH [of ms'] show ?thesis by simp
  qed
qed

lemma masked_data_set:
  "set (map2 (\<lambda>x b. if b then Fin 1 else x) xs (map (\<lambda>v. flt v t) ms)) \<subseteq> insert (Fin 1) (set xs)"
proof (induction xs arbitrary: ms)
  case Nil
  show ?case by simp
next
  case (Cons x xs)
  show ?case
  proof (cases ms)
    case Nil
    then show ?thesis by simp
  next
    case (Cons m ms')
    with Cons.IH [of ms'] show ?thesis by auto
  qed
qed

lemma not_flt_zero: "fle (Fin 0) v \<Longrightarrow> \<not> flt v (Fin 0)"
  by (cases v) auto

lemma in_unit_one: "in_unit (Fin 1)"
  by (simp add: in_unit_def)

section \<open>The masked image, pixel by pixel\<close>




section \<open>Mismatched shapes\<close>

text \<open>
  Claim C2. \<open>create_masked_stipple\<close> raises the shape error exactly when the two shapes
  differ, and the error carries the shape of the stipple image and the shape of the mask.
  It raises no other error, and an array is returned only for equal shapes (nothing is
  broadcast or cropped). On the store, the error leaves every array as it was: nothing
  has been allocated or written when it is raised.
\<close>

theorem create_masked_stipple_shape_error:
  "(create_masked_stipple S M t = Inl (ShapeMismatch (shape S) (shape M))) = (shape S \<noteq> shape M) \<and>
   (\<forall>e. create_masked_stipple S M t = Inl e \<longrightarrow>
        e = ShapeMismatch (shape S) (shape M) \<and> shape S \<noteq> shape M) \<and>
   (\<forall>R. create_masked_stipple S M t = Inr R \<longrightarrow> shape S = shape M \<and> shape R = shape S) \<and>
   (shape (h ! s) \<noteq> shape (h ! m) \<longrightarrow>
      create_masked_stipple_heap h s m t =
        (Inl (ShapeMismatch (shape (h ! s)) (shape (h ! m))), h)) \<and>
   (\<forall>e h'. create_masked_stipple_heap h s m t = (Inl e, h') \<longrightarrow>
        e = ShapeMismatch (shape (h ! s)) (shape (h ! m)) \<and> shape (h ! s) \<noteq> shape (h ! m) \<and> h' = h)"
  by (auto simp: create_masked_stipple_def create_masked_stipple_heap_def copy_def
      less_scalar_def setitem_mask_def alloc_def Let_def split: if_splits)

theorem create_masked_stipple_shape_error_witness:
  "shape (white_image 10 10) \<noteq> shape (black_image 10 11) \<and>
   create_masked_stipple (white_image 10 10) (black_image 10 11) (Fin (1 / 2)) =
     Inl (ShapeMismatch [10, 10] [10, 11]) \<and>
   create_masked_stipple_heap [white_image 10 10, black_image 10 11] 0 (Suc 0) (Fin (1 / 2)) =
     (Inl (ShapeMismatch [10, 10] [10, 11]), [white_image 10 10, black_image 10 11])"
proof -
  let ?W = "white_image 10 10" and ?B = "black_image 10 11"
  note T = create_masked_stipple_shape_error [of ?W ?B "Fin (1 / 2)" "[?W, ?B]" 0 "Suc 0"]
  have shW: "shape ?W = [10, 10]" by (simp add: white_image_def)
  have shB: "shape ?B = [10, 11]" by (simp add: black_image_def)
  have ne: "shape ?W \<noteq> shape ?B" unfolding shW shB by simp
  from T ne have a: "create_masked_stipple ?W ?B (Fin (1 / 2)) =
      Inl (ShapeMismatch (shape ?W) (shape ?B))" by blast
  have ne': "shape ([?W, ?B] ! 0) \<noteq> shape ([?W, ?B] ! Suc 0)"
    unfolding nth_Cons_0 nth_Cons_Suc shW shB by simp
  from T ne' have b: "create_masked_stipple_heap [?W, ?B] 0 (Suc 0) (Fin (1 / 2)) =
      (Inl (ShapeMismatch (shape ([?W, ?B] ! 0)) (shape ([?W, ?B] ! Suc 0))), [?W, ?B])"
    by blast
  from ne a b show ?thesis
    unfolding nth_Cons_0 nth_Cons_Suc shW shB by blast
qed

text \<open>The text of the exception for the shapes \<open>(10, 10)\<close> and \<open>(10, 11)\<close>.\<close>

lemma shape_mismatch_message_example:
  "shape_mismatch_message [10, 10] [10, 11] =
     ''Input images must have the same shape. stipple_img shape: (10, 10), mask_img shape: (10, 11)''"
  by code_simp

section \<open>Algebra of masking\<close>

text \<open>
  Claim C3. Masking is idempotent: for a stipple image and a mask of the same shape,
  masking the result again with the same mask and threshold returns the same array.
\<close>

theorem create_masked_stipple_idempotent:
  assumes "shape S = shape M"
  shows "\<exists>R. create_masked_stipple S M t = Inr R \<and> create_masked_stipple R M t = Inr R"
proof -
  define R where "R = \<lparr>shape = shape S,
     data = map2 (\<lambda>x b. if b then Fin 1 else x) (data S)
       (map (\<lambda>v. flt v (astype (comparison_dtype (dtype M)) t)) (data M)),
     dtype = dtype S\<rparr>"
  have first: "create_masked_stipple S M t = Inr R"
    unfolding R_def by (rule create_masked_stipple_same_shape [OF assms])
  have "shape R = shape M" using assms by (simp add: R_def)
  from create_masked_stipple_same_shape [OF this, of t]
  have "create_masked_stipple R M t = Inr R"
    by (simp add: R_def masked_data_idem)
  with first show ?thesis by blast
qed

theorem create_masked_stipple_idempotent_witness:
  "shape ex_stipple = shape ex_mask \<and>
   create_masked_stipple ex_stipple ex_mask (Fin (1 / 2)) =
     Inr \<lparr>shape = [2, 2], data = [Fin 1, Fin 1, Fin 0, Fin 1], dtype = Float64\<rparr> \<and>
   create_masked_stipple \<lparr>shape = [2, 2], data = [Fin 1, Fin 1, Fin 0, Fin 1], dtype = Float64\<rparr> ex_mask (Fin (1 / 2)) =
     Inr \<lparr>shape = [2, 2], data = [Fin 1, Fin 1, Fin 0, Fin 1], dtype = Float64\<rparr>"
  using create_masked_stipple_idempotent [of ex_stipple ex_mask "Fin (1 / 2)"]
  by (simp add: ex_stipple_def ex_mask_def create_masked_stipple_def
      copy_def less_scalar_def setitem_mask_def Let_def)

text \<open>
  Claim C4. With threshold \<open>0\<close> and a mask of the same shape whose elements are all
  \<open>\<ge> 0\<close>, the result equals the stipple image: no mask value is below \<open>0\<close>.
\<close>

theorem create_masked_stipple_threshold_zero:
  assumes "shape S = shape M" "wf_ndarray S" "wf_ndarray M"
    and "\<forall>v \<in> set (data M). fle (Fin 0) v"
  shows "create_masked_stipple S M (Fin 0) = Inr S"
proof -
  have len: "length (data M) = length (data S)"
    using assms(1-3) by (simp add: wf_ndarray_def)
  have "\<forall>v \<in> set (data M). \<not> flt v (Fin 0)"
    using assms(4) by (blast dest: not_flt_zero)
  from masked_data_none [OF len this] create_masked_stipple_same_shape [OF assms(1), of "Fin 0"]
  show ?thesis by (simp add: astype_zero)
qed

theorem create_masked_stipple_threshold_zero_witness:
  "shape ex_stipple = shape ex_mask \<and> wf_ndarray ex_stipple \<and> wf_ndarray ex_mask \<and>
   create_masked_stipple ex_stipple ex_mask (Fin 0) = Inr ex_stipple"
proof -
  have h1: "shape ex_stipple = shape ex_mask" by (simp add: ex_stipple_def ex_mask_def)
  have h2: "wf_ndarray ex_stipple" by (simp add: ex_stipple_def wf_ndarray_def)
  have h3: "wf_ndarray ex_mask" by (simp add: ex_mask_def wf_ndarray_def)
  have h4: "\<forall>v \<in> set (data ex_mask). fle (Fin 0) v" by (simp add: ex_mask_def)
  from create_masked_stipple_threshold_zero [OF h1 h2 h3 h4] h1 h2 h3
  show ?thesis by simp
qed

text \<open>
  Claim C5. With threshold \<open>1\<close>, the pixels whose mask value is below \<open>1.0\<close> become
  \<open>1.0\<close>, the others keep the value of the stipple image, in particular those whose
  mask value is exactly \<open>1.0\<close>; with a mask of zeros every pixel of the result is
  \<open>1.0\<close>.
\<close>

theorem create_masked_stipple_threshold_one:
  assumes "shape S = shape M" "wf_ndarray S" "wf_ndarray M"
  shows "\<exists>R. create_masked_stipple S M (Fin 1) = Inr R \<and> shape R = shape S \<and> wf_ndarray R \<and>
     (\<forall>i < prod_list (shape S).
        (flt (data M ! i) (Fin 1) \<longrightarrow> data R ! i = Fin 1) \<and>
        (\<not> flt (data M ! i) (Fin 1) \<longrightarrow> data R ! i = data S ! i) \<and>
        (data M ! i = Fin 1 \<longrightarrow> data R ! i = data S ! i)) \<and>
     ((\<forall>v \<in> set (data M). v = Fin 0) \<longrightarrow> (\<forall>v \<in> set (data R). v = Fin 1))"
proof -
  define R where "R = \<lparr>shape = shape S,
     data = map2 (\<lambda>x b. if b then Fin 1 else x) (data S) (map (\<lambda>v. flt v (Fin 1)) (data M)),
     dtype = dtype S\<rparr>"
  have res: "create_masked_stipple S M (Fin 1) = Inr R"
    unfolding R_def
    using create_masked_stipple_same_shape [OF assms(1), of "Fin 1"]
    by (simp add: astype_one)
  have lenS: "length (data S) = prod_list (shape S)"
    using assms(2) by (simp add: wf_ndarray_def)
  have lenM: "length (data M) = length (data S)"
    using assms lenS by (simp add: wf_ndarray_def)
  have shp: "shape R = shape S" by (simp add: R_def)
  have wfR: "wf_ndarray R" using lenS lenM by (simp add: R_def wf_ndarray_def)
  have flat: "data R ! i = (if flt (data M ! i) (Fin 1) then Fin 1 else data S ! i)"
    if "i < prod_list (shape S)" for i
    using that lenS lenM unfolding R_def by (simp add: masked_data_nth)
  have each: "(flt (data M ! i) (Fin 1) \<longrightarrow> data R ! i = Fin 1) \<and>
        (\<not> flt (data M ! i) (Fin 1) \<longrightarrow> data R ! i = data S ! i) \<and>
        (data M ! i = Fin 1 \<longrightarrow> data R ! i = data S ! i)"
    if "i < prod_list (shape S)" for i
    using flat [OF that] by simp
  have white: "\<forall>v \<in> set (data R). v = Fin 1" if z: "\<forall>v \<in> set (data M). v = Fin 0"
  proof -
    from z have "\<forall>v \<in> set (data M). flt v (Fin 1)" by auto
    from masked_data_all [OF this, of "data S"] show ?thesis by (simp add: R_def)
  qed
  from res shp wfR each white show ?thesis by blast
qed

theorem create_masked_stipple_threshold_one_witness:
  "shape ex_stipple = shape (black_image 2 2) \<and> wf_ndarray ex_stipple \<and>
   wf_ndarray (black_image 2 2) \<and> data (black_image 2 2) = [Fin 0, Fin 0, Fin 0, Fin 0] \<and>
   create_masked_stipple ex_stipple (black_image 2 2) (Fin 1) = Inr (white_image 2 2) \<and>
   create_masked_stipple ex_stipple ex_mask (Fin 1) =
     Inr \<lparr>shape = [2, 2], data = [Fin 1, Fin 1, Fin 0, Fin 1], dtype = Float64\<rparr>"
  using create_masked_stipple_threshold_one [of ex_stipple "black_image 2 2"]
  by (simp add: ex_stipple_def ex_mask_def black_image_def white_image_def wf_ndarray_def
      create_masked_stipple_def copy_def less_scalar_def setitem_mask_def Let_def numeral_eq_Suc)

section \<open>The arguments are not modified\<close>

text \<open>
  Claim C6. On the store, a call with valid references to two arrays of the same shape
  (possibly the same array) returns a reference that was not allocated before the call,
  leaves every array that existed before the call as it was, the stipple image and the
  mask among them, and the new array holds the result of the function on values.
\<close>

theorem create_masked_stipple_heap_frame:
  assumes "s < length h" "m < length h" "shape (h ! s) = shape (h ! m)"
  shows "\<exists>r h'. create_masked_stipple_heap h s m t = (Inr r, h') \<and>
     r = length h \<and> r \<noteq> s \<and> r \<noteq> m \<and> length h' = Suc (length h) \<and>
     (\<forall>a < length h. h' ! a = h ! a) \<and> h' ! s = h ! s \<and> h' ! m = h ! m \<and>
     create_masked_stipple (h ! s) (h ! m) t = Inr (h' ! r)"
  using assms
  by (simp add: create_masked_stipple_heap_def create_masked_stipple_def alloc_def
      Let_def nth_append)

theorem create_masked_stipple_heap_frame_witness:
  "(0::nat) < length [ex_stipple, ex_mask] \<and> (1::nat) < length [ex_stipple, ex_mask] \<and>
   shape ([ex_stipple, ex_mask] ! 0) = shape ([ex_stipple, ex_mask] ! 1) \<and>
   create_masked_stipple_heap [ex_stipple, ex_mask] 0 1 (Fin (1 / 2)) =
     (Inr 2, [ex_stipple, ex_mask, \<lparr>shape = [2, 2], data = [Fin 1, Fin 1, Fin 0, Fin 1], dtype = Float64\<rparr>]) \<and>
   create_masked_stipple_heap [ex_stipple] 0 0 (Fin (1 / 2)) =
     (Inr 1, [ex_stipple, \<lparr>shape = [2, 2], data = [Fin 1, Fin 1, Fin 1, Fin 1], dtype = Float64\<rparr>])"
  using create_masked_stipple_heap_frame [of 0 "[ex_stipple, ex_mask]" 1 "Fin (1 / 2)"]
  by (simp add: ex_stipple_def ex_mask_def create_masked_stipple_heap_def alloc_def
      copy_def less_scalar_def setitem_mask_def Let_def)

section \<open>The validation of the four panels\<close>

text \<open>
  Claim C7, as stated, fails when the image with the odd shape is the first one: the
  expected shape is read from \<open>original_img\<close>, so the check of \<open>original_img\<close>
  against itself passes and the error names \<open>stipple_img\<close>. With a first image of
  shape \<open>(50, 51)\<close> and three images of shape \<open>(50, 50)\<close>:
\<close>

theorem create_statistics_meme_first_odd_counterexample:
  "create_statistics_meme (white_image 50 51) (white_image 50 50) (white_image 50 50)
     (white_image 50 50) = Inl (DimensionMismatch ''stipple_img'' [50, 50] 50 51) \<and>
   blamed (create_statistics_meme (white_image 50 51) (white_image 50 50) (white_image 50 50)
     (white_image 50 50)) \<noteq> Some ''original_img''"
proof -
  have sh: "shape (white_image 50 51) = [50, 51]" "shape (white_image 50 50) = [50, 50]"
    by (simp_all add: white_image_def)
  have "create_statistics_meme (white_image 50 51) (white_image 50 50) (white_image 50 50)
     (white_image 50 50) = Inl (DimensionMismatch ''stipple_img'' [50, 50] 50 51)"
    by (simp add: create_statistics_meme_def sh)
  then show ?thesis by simp
qed

text \<open>
  Claim C7, amended. When the first image is two-dimensional with shape \<open>(h, w)\<close>, the
  error names the first of \<open>stipple_img\<close>, \<open>block_letter_img\<close>,
  \<open>masked_stipple_img\<close> whose shape is not \<open>(h, w)\<close> and reports that shape against
  \<open>(h, w)\<close>. So an odd image in the second, third or fourth position is named with its
  shape; when the odd image is the first one, \<open>stipple_img\<close> is named, with its shape
  against the shape of the first image. \<open>original_img\<close> is never named.
\<close>

theorem create_statistics_meme_blames:
  assumes "shape original_img = [h, w]"
  shows
   "(shape stipple_img \<noteq> [h, w] \<longrightarrow>
       create_statistics_meme original_img stipple_img block_letter_img masked_stipple_img =
         Inl (DimensionMismatch ''stipple_img'' (shape stipple_img) h w)) \<and>
    (shape stipple_img = [h, w] \<and> shape block_letter_img \<noteq> [h, w] \<longrightarrow>
       create_statistics_meme original_img stipple_img block_letter_img masked_stipple_img =
         Inl (DimensionMismatch ''block_letter_img'' (shape block_letter_img) h w)) \<and>
    (shape stipple_img = [h, w] \<and> shape block_letter_img = [h, w] \<and>
     shape masked_stipple_img \<noteq> [h, w] \<longrightarrow>
       create_statistics_meme original_img stipple_img block_letter_img masked_stipple_img =
         Inl (DimensionMismatch ''masked_stipple_img'' (shape masked_stipple_img) h w)) \<and>
    (shape stipple_img = [h, w] \<and> shape block_letter_img = [h, w] \<and>
     shape masked_stipple_img = [h, w] \<longrightarrow>
       create_statistics_meme original_img stipple_img block_letter_img masked_stipple_img =
         Inr (h, w)) \<and>
    blamed (create_statistics_meme original_img stipple_img block_letter_img masked_stipple_img)
      \<noteq> Some ''original_img''"
  using assms by (simp add: create_statistics_meme_def)

theorem create_statistics_meme_blames_witness:
  "shape (white_image 50 50) = [50, 50] \<and> shape (white_image 50 51) \<noteq> [50, 50] \<and>
   create_statistics_meme (white_image 50 50) (white_image 50 51) (white_image 50 50)
     (white_image 50 50) = Inl (DimensionMismatch ''stipple_img'' [50, 51] 50 50) \<and>
   create_statistics_meme (white_image 50 50) (white_image 50 50) (white_image 50 51)
     (white_image 50 50) = Inl (DimensionMismatch ''block_letter_img'' [50, 51] 50 50) \<and>
   create_statistics_meme (white_image 50 50) (white_image 50 50) (white_image 50 50)
     (white_image 50 51) = Inl (DimensionMismatch ''masked_stipple_img'' [50, 51] 50 50) \<and>
   create_statistics_meme (white_image 50 50) (white_image 50 50) (white_image 50 50)
     (white_image 50 50) = Inr (50, 50)"
proof -
  let ?A = "white_image 50 50" and ?B = "white_image 50 51"
  have shA: "shape ?A = [50, 50]" by (simp add: white_image_def)
  have shB: "shape ?B = [50, 51]" by (simp add: white_image_def)
  have ne: "shape ?B \<noteq> [50, 50]" unfolding shB by simp
  from create_statistics_meme_blames [OF shA, of ?B ?A ?A] ne
  have 1: "create_statistics_meme ?A ?B ?A ?A = Inl (DimensionMismatch ''stipple_img'' (shape ?B) 50 50)"
    by blast
  from create_statistics_meme_blames [OF shA, of ?A ?B ?A] ne shA
  have 2: "create_statistics_meme ?A ?A ?B ?A = Inl (DimensionMismatch ''block_letter_img'' (shape ?B) 50 50)"
    by blast
  from create_statistics_meme_blames [OF shA, of ?A ?A ?B] ne shA
  have 3: "create_statistics_meme ?A ?A ?A ?B = Inl (DimensionMismatch ''masked_stipple_img'' (shape ?B) 50 50)"
    by blast
  from create_statistics_meme_blames [OF shA, of ?A ?A ?A] shA
  have 4: "create_statistics_meme ?A ?A ?A ?A = Inr (50, 50)"
    by blast
  from shA ne 1 2 3 4 show ?thesis unfolding shB by blast
qed

text \<open>
  A first image that is not two-dimensional stops the call before any image is checked:
  the unpacking of its shape raises.
\<close>

lemma create_statistics_meme_unpack:
  "length (shape original_img) \<noteq> 2 \<Longrightarrow>
   create_statistics_meme original_img stipple_img block_letter_img masked_stipple_img =
     Inl (UnpackError (length (shape original_img)))"
  by (auto simp: create_statistics_meme_def split: list.splits)

text \<open>The text of the exception in the case of the counterexample.\<close>

lemma dimension_mismatch_message_example:
  "dimension_mismatch_message ''stipple_img'' [50, 50] 50 51 =
     ''All images must have the same dimensions. stipple_img has shape (50, 50), expected (50, 51)''"
  by code_simp

section \<open>The range of the values\<close>

text \<open>
  Claim C9. For a stipple image whose elements all lie in \<open>[0, 1]\<close> and a mask of the
  same shape, every element of the result lies in \<open>[0, 1]\<close>, for any threshold.
\<close>

theorem create_masked_stipple_in_unit:
  assumes "shape S = shape M" and "\<forall>v \<in> set (data S). in_unit v"
  shows "\<exists>R. create_masked_stipple S M t = Inr R \<and> (\<forall>v \<in> set (data R). in_unit v)"
proof -
  define R where "R = \<lparr>shape = shape S,
     data = map2 (\<lambda>x b. if b then Fin 1 else x) (data S)
       (map (\<lambda>v. flt v (astype (comparison_dtype (dtype M)) t)) (data M)),
     dtype = dtype S\<rparr>"
  have first: "create_masked_stipple S M t = Inr R"
    unfolding R_def by (rule create_masked_stipple_same_shape [OF assms(1)])
  have "set (data R) \<subseteq> insert (Fin 1) (set (data S))"
    unfolding R_def
    using masked_data_set [of "data S" "astype (comparison_dtype (dtype M)) t" "data M"]
    by simp
  with assms(2) in_unit_one have "\<forall>v \<in> set (data R). in_unit v" by blast
  with first show ?thesis by blast
qed

theorem create_masked_stipple_in_unit_witness:
  "shape ex_stipple = shape ex_mask2 \<and>
   in_unit (Fin 0) \<and> in_unit (Fin 1) \<and> in_unit (Fin (1 / 4)) \<and>
   create_masked_stipple ex_stipple ex_mask2 (Fin (1 / 2)) =
     Inr \<lparr>shape = [2, 2], data = [Fin 0, Fin 1, Fin 0, Fin (1 / 4)], dtype = Float64\<rparr>"
  using create_masked_stipple_in_unit [of ex_stipple ex_mask2 "Fin (1 / 2)"]
  by (simp add: ex_stipple_def ex_mask2_def create_masked_stipple_def
      copy_def less_scalar_def setitem_mask_def Let_def in_unit_def)

section \<open>Two masks\<close>

text \<open>
  Claim C10. For a stipple image and two masks, all of the same shape, masking with the
  first mask and then the second gives the same array as masking with the second and
  then the first.
\<close>

theorem create_masked_stipple_commute:
  assumes "shape S = shape M1" "shape S = shape M2"
  shows "\<exists>A B R. create_masked_stipple S M1 t = Inr A \<and> create_masked_stipple A M2 t = Inr R \<and>
                 create_masked_stipple S M2 t = Inr B \<and> create_masked_stipple B M1 t = Inr R"
proof -
  define A where "A = \<lparr>shape = shape S,
     data = map2 (\<lambda>x b. if b then Fin 1 else x) (data S)
       (map (\<lambda>v. flt v (astype (comparison_dtype (dtype M1)) t)) (data M1)),
     dtype = dtype S\<rparr>"
  define B where "B = \<lparr>shape = shape S,
     data = map2 (\<lambda>x b. if b then Fin 1 else x) (data S)
       (map (\<lambda>v. flt v (astype (comparison_dtype (dtype M2)) t)) (data M2)),
     dtype = dtype S\<rparr>"
  define R where "R = \<lparr>shape = shape S,
     data = map2 (\<lambda>x b. if b then Fin 1 else x) (data A)
       (map (\<lambda>v. flt v (astype (comparison_dtype (dtype M2)) t)) (data M2)),
     dtype = dtype S\<rparr>"
  have a: "create_masked_stipple S M1 t = Inr A"
    unfolding A_def by (rule create_masked_stipple_same_shape [OF assms(1)])
  have b: "create_masked_stipple S M2 t = Inr B"
    unfolding B_def by (rule create_masked_stipple_same_shape [OF assms(2)])
  have "shape A = shape M2" using assms(2) by (simp add: A_def)
  from create_masked_stipple_same_shape [OF this, of t]
  have ar: "create_masked_stipple A M2 t = Inr R" by (simp add: R_def A_def)
  have "shape B = shape M1" using assms(1) by (simp add: B_def)
  from create_masked_stipple_same_shape [OF this, of t]
  have br: "create_masked_stipple B M1 t = Inr R"
    by (simp add: R_def A_def B_def
        masked_data_commute [of "data S" "astype (comparison_dtype (dtype M1)) t" "data M1"
          "astype (comparison_dtype (dtype M2)) t" "data M2"])
  from a ar b br show ?thesis by blast
qed

theorem create_masked_stipple_commute_witness:
  "shape ex_stipple = shape ex_mask \<and> shape ex_stipple = shape ex_mask2 \<and>
   create_masked_stipple ex_stipple ex_mask (Fin (1 / 2)) =
     Inr \<lparr>shape = [2, 2], data = [Fin 1, Fin 1, Fin 0, Fin 1], dtype = Float64\<rparr> \<and>
   create_masked_stipple \<lparr>shape = [2, 2], data = [Fin 1, Fin 1, Fin 0, Fin 1], dtype = Float64\<rparr> ex_mask2 (Fin (1 / 2)) =
     Inr \<lparr>shape = [2, 2], data = [Fin 1, Fin 1, Fin 0, Fin 1], dtype = Float64\<rparr> \<and>
   create_masked_stipple ex_stipple ex_mask2 (Fin (1 / 2)) =
     Inr \<lparr>shape = [2, 2], data = [Fin 0, Fin 1, Fin 0, Fin (1 / 4)], dtype = Float64\<rparr> \<and>
   create_masked_stipple \<lparr>shape = [2, 2], data = [Fin 0, Fin 1, Fin 0, Fin (1 / 4)], dtype = Float64\<rparr> ex_mask (Fin (1 / 2)) =
     Inr \<lparr>shape = [2, 2], data = [Fin 1, Fin 1, Fin 0, Fin 1], dtype = Float64\<rparr>"
  using create_masked_stipple_commute [of ex_stipple ex_mask ex_mask2 "Fin (1 / 2)"]
  by (simp add: ex_stipple_def ex_mask_def ex_mask2_def create_masked_stipple_def
      copy_def less_scalar_def setitem_mask_def Let_def)

end
